theory Spec2Isabelle
  imports Main
begin

section \<open>Python slices\<close>

text \<open>
  The source cuts strings and lists with the open slices \<open>s[:i]\<close> and \<open>s[i:]\<close>.
  A slice never raises: a negative bound counts from the end, and every bound is
  clamped into \<open>[0, len(s)]\<close>.
\<close>

definition slice_index :: "int \<Rightarrow> nat \<Rightarrow> nat" where
  "slice_index i n = (if i < 0 then nat (max 0 (i + int n)) else nat (min i (int n)))"

definition slice_to :: "'a list \<Rightarrow> int \<Rightarrow> 'a list" where
  "slice_to xs i = take (slice_index i (length xs)) xs"

definition slice_from :: "'a list \<Rightarrow> int \<Rightarrow> 'a list" where
  "slice_from xs i = drop (slice_index i (length xs)) xs"

section \<open>Operation\<close>

text \<open>
  \<open>class Operation\<close> of \<open>ot.py\<close>. The fields \<open>text\<close> and \<open>length\<close> carry the suffix
  \<open>_op\<close>. \<open>op_type\<close> is a Python string, so any string can occur, not only
  \<open>insert\<close> and \<open>delete\<close>. Python integers are unbounded.
\<close>

record operation =
  op_type :: string
  position :: int
  text_op :: string
  length_op :: int
  base_version :: int
  op_id :: "string option"

text \<open>The constructor \<open>Operation.__init__\<close>, all six arguments given.\<close>

definition Operation ::
  "string \<Rightarrow> int \<Rightarrow> string \<Rightarrow> int \<Rightarrow> int \<Rightarrow> string option \<Rightarrow> operation" where
  "Operation ty pos txt len bv oid =
     \<lparr>op_type = ty, position = pos, text_op = txt, length_op = len,
      base_version = bv, op_id = oid\<rparr>"

section \<open>transform\<close>

text \<open>
  \<open>transform(opA, opB)\<close>. The two copies are built with five arguments, so their
  \<open>op_id\<close> is the default \<open>None\<close>. The delete/insert case calls \<open>transform\<close> on the
  two copies, swapped.
\<close>

function transform :: "operation \<Rightarrow> operation \<Rightarrow> operation \<times> operation" where
  "transform opA opB =
     (let A = Operation (op_type opA) (position opA) (text_op opA) (length_op opA)
                (base_version opA) None;
          B = Operation (op_type opB) (position opB) (text_op opB) (length_op opB)
                (base_version opB) None
      in
        if op_type A = ''insert'' \<and> op_type B = ''insert'' then
          (if position A < position B then
             (A, B\<lparr>position := position B + int (length (text_op A))\<rparr>)
           else if position A > position B then
             (A\<lparr>position := position A + int (length (text_op B))\<rparr>, B)
           else
             (A, B\<lparr>position := position B + int (length (text_op A))\<rparr>))
        else if op_type A = ''insert'' \<and> op_type B = ''delete'' then
          (if position A \<le> position B then
             (A, B\<lparr>position := position B + int (length (text_op A))\<rparr>)
           else
             (let shift = min (position A - position B) (length_op B)
              in (A\<lparr>position := position A - shift\<rparr>, B)))
        else if op_type A = ''delete'' \<and> op_type B = ''insert'' then
          (let (Bprime, Aprime) = transform B A in (Aprime, Bprime))
        else if op_type A = ''delete'' \<and> op_type B = ''delete'' then
          (if position A < position B then
             (let overlap = (position A + length_op A) - position B
              in if overlap > 0 then
                   (A, B\<lparr>position := position A, length_op := length_op B + overlap\<rparr>)
                 else (A, B))
           else
             (let overlap = (position B + length_op B) - position A
              in if overlap > 0 then
                   (A\<lparr>position := position B, length_op := length_op A + overlap\<rparr>, B)
                 else (A, B)))
        else (A, B))"
  by pat_completeness auto
termination
  by (relation "measure (\<lambda>(a, b).
        if op_type a = ''delete'' \<and> op_type b = ''insert'' then 1 else 0)")
     (auto simp: Operation_def)

declare transform.simps [simp del]

section \<open>DocumentModel\<close>

record DocumentModel =
  text_doc :: string
  version :: int

definition DocumentModel_init :: "string \<Rightarrow> DocumentModel" where
  "DocumentModel_init initial_text = \<lparr>text_doc = initial_text, version = 0\<rparr>"

datatype error = ValueError string

text \<open>
  \<open>DocumentModel.apply_operation\<close> mutates \<open>self\<close> and may raise. The model returns
  the object as the call leaves it, together with the exception if one was raised.
  The \<open>raise\<close> sits in the last branch, before any assignment.
\<close>

definition apply_operation :: "DocumentModel \<Rightarrow> operation \<Rightarrow> DocumentModel \<times> error option" where
  "apply_operation self op =
     (if op_type op = ''insert'' then
        (self\<lparr>text_doc := slice_to (text_doc self) (position op) @ text_op op
                          @ slice_from (text_doc self) (position op),
              version := version self + 1\<rparr>, None)
      else if op_type op = ''delete'' then
        (self\<lparr>text_doc := slice_to (text_doc self) (position op)
                          @ slice_from (text_doc self) (position op + length_op op),
              version := version self + 1\<rparr>, None)
      else (self, Some (ValueError ''Unknown operation type.'')))"

section \<open>OTServer\<close>

record OTServer =
  document :: DocumentModel
  history :: "operation list"

definition OTServer_init :: OTServer where
  "OTServer_init = \<lparr>document = DocumentModel_init ''Hello OT!'', history = []\<rparr>"

text \<open>The dictionary \<open>update_payload\<close> handed to \<open>sio.emit\<close>.\<close>

record update_payload =
  opId :: "string option"
  payload_op_type :: string
  payload_position :: int
  payload_text :: string
  payload_length :: int
  new_version :: int

text \<open>The loop \<open>for old_op in unseen_ops: op, _ = transform(op, old_op)\<close>.\<close>

fun rebase_loop :: "operation \<Rightarrow> operation list \<Rightarrow> operation" where
  "rebase_loop op [] = op"
| "rebase_loop op (old_op # unseen_ops) = rebase_loop (fst (transform op old_op)) unseen_ops"

text \<open>
  \<open>OTServer.handle_incoming_operation\<close> mutates the server and may raise. The model
  returns the server as the call leaves it, and either the exception or the payload
  that is emitted. An exception of \<open>apply_operation\<close> leaves the method before
  \<open>history.append\<close>.
\<close>

definition handle_incoming_operation ::
  "OTServer \<Rightarrow> operation \<Rightarrow> OTServer \<times> (error + update_payload)" where
  "handle_incoming_operation self op0 =
     (let unseen_ops = slice_from (history self) (base_version op0);
          op = rebase_loop op0 unseen_ops;
          (doc, raised) = apply_operation (document self) op
      in case raised of
           Some e \<Rightarrow> (self\<lparr>document := doc\<rparr>, Inl e)
         | None \<Rightarrow>
             (\<lparr>document = doc, history = history self @ [op]\<rparr>,
              Inr \<lparr>opId = op_id op, payload_op_type = op_type op,
                   payload_position = position op, payload_text = text_op op,
                   payload_length = length_op op, new_version = version doc\<rparr>))"

text \<open>
  \<open>client_op\<close> of \<open>main.py\<close> starts one task per message. A task runs without
  interruption up to its only \<open>await\<close>, the emit, which comes after every change of the
  server; an exception ends the task and the server goes on. So a sequence of
  messages is handled one after the other.
\<close>

fun client_ops :: "OTServer \<Rightarrow> operation list \<Rightarrow> OTServer" where
  "client_ops self [] = self"
| "client_ops self (op # ops) = client_ops (fst (handle_incoming_operation self op)) ops"

text \<open>The number of messages of a sequence whose operation was applied.\<close>

fun applied :: "OTServer \<Rightarrow> operation list \<Rightarrow> nat" where
  "applied self [] = 0"
| "applied self (op # ops) =
     (case snd (handle_incoming_operation self op) of
        Inl e \<Rightarrow> applied (fst (handle_incoming_operation self op)) ops
      | Inr p \<Rightarrow> Suc (applied (fst (handle_incoming_operation self op)) ops))"

section \<open>The transformation law\<close>

text \<open>
  \<open>apply(apply(doc, op1), op2)\<close>: the text after two operations applied to a document
  one after the other.
\<close>

definition apply_then :: "DocumentModel \<Rightarrow> operation \<Rightarrow> operation \<Rightarrow> string" where
  "apply_then doc op1 op2 =
     text_doc (fst (apply_operation (fst (apply_operation doc op1)) op2))"

section \<open>transform on a store of objects\<close>

text \<open>
  Python hands objects over by reference, and \<open>transform\<close> assigns to fields. To
  see which objects it writes, the objects live in a store: a list of operations,
  an address being an index. A new object takes the next free address.
  \<open>transform_store\<close> is \<open>transform\<close> again, statement by statement, on addresses; it
  returns the store it leaves and the addresses of the pair it returns.
\<close>

type_synonym store = "operation list"

definition new_Operation ::
  "store \<Rightarrow> string \<Rightarrow> int \<Rightarrow> string \<Rightarrow> int \<Rightarrow> int \<Rightarrow> string option \<Rightarrow> store \<times> nat" where
  "new_Operation st ty pos txt len bv oid = (st @ [Operation ty pos txt len bv oid], length st)"

function transform_store :: "store \<Rightarrow> nat \<Rightarrow> nat \<Rightarrow> store \<times> nat \<times> nat" where
  "transform_store st opA opB =
     (let (st1, A) = new_Operation st (op_type (st ! opA)) (position (st ! opA))
                       (text_op (st ! opA)) (length_op (st ! opA)) (base_version (st ! opA)) None;
          (st2, B) = new_Operation st1 (op_type (st1 ! opB)) (position (st1 ! opB))
                       (text_op (st1 ! opB)) (length_op (st1 ! opB)) (base_version (st1 ! opB)) None
      in
        if op_type (st2 ! A) = ''insert'' \<and> op_type (st2 ! B) = ''insert'' then
          (if position (st2 ! A) < position (st2 ! B) then
             (st2[B := (st2 ! B)\<lparr>position := position (st2 ! B) + int (length (text_op (st2 ! A)))\<rparr>], A, B)
           else if position (st2 ! A) > position (st2 ! B) then
             (st2[A := (st2 ! A)\<lparr>position := position (st2 ! A) + int (length (text_op (st2 ! B)))\<rparr>], A, B)
           else
             (st2[B := (st2 ! B)\<lparr>position := position (st2 ! B) + int (length (text_op (st2 ! A)))\<rparr>], A, B))
        else if op_type (st2 ! A) = ''insert'' \<and> op_type (st2 ! B) = ''delete'' then
          (if position (st2 ! A) \<le> position (st2 ! B) then
             (st2[B := (st2 ! B)\<lparr>position := position (st2 ! B) + int (length (text_op (st2 ! A)))\<rparr>], A, B)
           else
             (let shift = min (position (st2 ! A) - position (st2 ! B)) (length_op (st2 ! B))
              in (st2[A := (st2 ! A)\<lparr>position := position (st2 ! A) - shift\<rparr>], A, B)))
        else if op_type (st2 ! A) = ''delete'' \<and> op_type (st2 ! B) = ''insert'' then
          (let (st3, Bprime, Aprime) = transform_store st2 B A in (st3, Aprime, Bprime))
        else if op_type (st2 ! A) = ''delete'' \<and> op_type (st2 ! B) = ''delete'' then
          (if position (st2 ! A) < position (st2 ! B) then
             (let overlap = (position (st2 ! A) + length_op (st2 ! A)) - position (st2 ! B)
              in if overlap > 0 then
                   (let st3 = st2[B := (st2 ! B)\<lparr>position := position (st2 ! A)\<rparr>]
                    in (st3[B := (st3 ! B)\<lparr>length_op := length_op (st3 ! B) + overlap\<rparr>], A, B))
                 else (st2, A, B))
           else
             (let overlap = (position (st2 ! B) + length_op (st2 ! B)) - position (st2 ! A)
              in if overlap > 0 then
                   (let st3 = st2[A := (st2 ! A)\<lparr>position := position (st2 ! B)\<rparr>]
                    in (st3[A := (st3 ! A)\<lparr>length_op := length_op (st3 ! A) + overlap\<rparr>], A, B))
                 else (st2, A, B)))
        else (st2, A, B))"
  by pat_completeness auto
termination
  by (relation "measure (\<lambda>(st, a, b).
        if op_type (st ! a) = ''delete''
           \<and> op_type ((st @ [Operation (op_type (st ! a)) (position (st ! a)) (text_op (st ! a))
                               (length_op (st ! a)) (base_version (st ! a)) None]) ! b) = ''insert''
        then 1 else 0)")
     (auto simp: new_Operation_def Operation_def nth_append)

declare transform_store.simps [simp del]


section \<open>Helper lemmas\<close>

lemma transform_insert_delete_op_type:
  "op_type A = ''insert'' \<Longrightarrow> op_type B = ''delete'' \<Longrightarrow>
   op_type (fst (transform A B)) = ''insert'' \<and> op_type (snd (transform A B)) = ''delete''"
  by (subst (1 2) transform.simps) (simp add: Let_def Operation_def)

lemma transform_op_type:
  "op_type (fst (transform A B)) = op_type A \<and> op_type (snd (transform A B)) = op_type B"
proof (cases "op_type A = ''delete'' \<and> op_type B = ''insert''")
  case True
  then have "op_type (fst (transform
        (Operation (op_type B) (position B) (text_op B) (length_op B) (base_version B) None)
        (Operation (op_type A) (position A) (text_op A) (length_op A) (base_version A) None)))
          = ''insert''
      \<and> op_type (snd (transform
        (Operation (op_type B) (position B) (text_op B) (length_op B) (base_version B) None)
        (Operation (op_type A) (position A) (text_op A) (length_op A) (base_version A) None)))
          = ''delete''"
    by (intro transform_insert_delete_op_type) (simp_all add: Operation_def)
  with True show ?thesis
    by (subst (1 2) transform.simps) (auto simp add: Let_def Operation_def split: prod.split)
next
  case False
  then show ?thesis
    by (subst (1 2) transform.simps) (auto simp add: Let_def Operation_def)
qed

lemma rebase_loop_op_type: "op_type (rebase_loop op ops) = op_type op"
  by (induction ops arbitrary: op) (simp_all add: transform_op_type)

lemma slice_from_beyond: "int (length xs) \<le> i \<Longrightarrow> slice_from xs i = []"
  by (simp add: slice_from_def slice_index_def)

lemma slice_index_negative: "i < 0 \<Longrightarrow> slice_index i n = n - nat (- i)"
  unfolding slice_index_def by (simp add: max_def) arith

lemma slice_from_negative:
  "i < 0 \<Longrightarrow> slice_from xs i = drop (length xs - nat (- i)) xs"
  by (simp add: slice_from_def slice_index_negative)

lemma slice_within:
  "0 \<le> i \<Longrightarrow> i \<le> int (length xs) \<Longrightarrow>
   slice_to xs i = take (nat i) xs \<and> slice_from xs i = drop (nat i) xs"
  by (simp add: slice_to_def slice_from_def slice_index_def)

lemma handle_incoming_operation_raised:
  "snd (handle_incoming_operation s op) = Inl e \<Longrightarrow> fst (handle_incoming_operation s op) = s"
  by (auto simp: handle_incoming_operation_def Let_def apply_operation_def split: if_splits prod.splits option.splits)

lemma handle_incoming_operation_emitted:
  "snd (handle_incoming_operation s op) = Inr p \<Longrightarrow>
     version (document (fst (handle_incoming_operation s op))) = version (document s) + 1
   \<and> length (history (fst (handle_incoming_operation s op))) = Suc (length (history s))
   \<and> new_version p = version (document s) + 1"
  by (auto simp: handle_incoming_operation_def Let_def apply_operation_def split: if_splits prod.splits option.splits)


lemma client_ops_version_history:
  "version (document s) = int (length (history s)) \<Longrightarrow>
   version (document (client_ops s ops)) = int (length (history (client_ops s ops)))"
proof (induction ops arbitrary: s)
  case Nil
  then show ?case by simp
next
  case (Cons op ops)
  have "version (document (fst (handle_incoming_operation s op)))
          = int (length (history (fst (handle_incoming_operation s op))))"
  proof (cases "snd (handle_incoming_operation s op)")
    case (Inl e)
    then show ?thesis using Cons.prems by (simp add: handle_incoming_operation_raised)
  next
    case (Inr p)
    then show ?thesis using Cons.prems handle_incoming_operation_emitted [OF Inr] by simp
  qed
  then show ?case using Cons.IH by simp
qed

lemma client_ops_version_applied:
  "version (document (client_ops s ops)) = version (document s) + int (applied s ops)"
proof (induction ops arbitrary: s)
  case Nil
  then show ?case by simp
next
  case (Cons op ops)
  show ?case
  proof (cases "snd (handle_incoming_operation s op)")
    case (Inl e)
    then show ?thesis using Cons.IH by (simp add: handle_incoming_operation_raised)
  next
    case (Inr p)
    then show ?thesis
      using Cons.IH [of "fst (handle_incoming_operation s op)"]
            handle_incoming_operation_emitted [OF Inr] by simp
  qed
qed

lemma transform_store_direct:
  assumes "opA < length st" and "opB < length st"
      and "\<not> (op_type (st ! opA) = ''delete'' \<and> op_type (st ! opB) = ''insert'')"
  shows "transform_store st opA opB
           = (st @ [fst (transform (st ! opA) (st ! opB)), snd (transform (st ! opA) (st ! opB))],
              length st, Suc (length st))"
  using assms
  by (subst transform_store.simps, subst (1 2) transform.simps)
     (auto simp: new_Operation_def Operation_def Let_def nth_append list_update_append)


lemma transform_delete_insert:
  assumes "op_type a = ''delete''" and "op_type b = ''insert''"
  shows "transform a b
           = (snd (transform
                (Operation (op_type b) (position b) (text_op b) (length_op b) (base_version b) None)
                (Operation (op_type a) (position a) (text_op a) (length_op a) (base_version a) None)),
              fst (transform
                (Operation (op_type b) (position b) (text_op b) (length_op b) (base_version b) None)
                (Operation (op_type a) (position a) (text_op a) (length_op a) (base_version a) None)))"
  using assms
  by (subst transform.simps) (simp add: Let_def Operation_def split: prod.split)

lemma transform_store_swapped:
  assumes "opA < length st" and "opB < length st"
      and "op_type (st ! opA) = ''delete''" and "op_type (st ! opB) = ''insert''"
  shows "transform_store st opA opB
           = (st @ [Operation (op_type (st ! opA)) (position (st ! opA)) (text_op (st ! opA))
                      (length_op (st ! opA)) (base_version (st ! opA)) None,
                    Operation (op_type (st ! opB)) (position (st ! opB)) (text_op (st ! opB))
                      (length_op (st ! opB)) (base_version (st ! opB)) None,
                    snd (transform (st ! opA) (st ! opB)),
                    fst (transform (st ! opA) (st ! opB))],
              length st + 3, length st + 2)"
proof -
  let ?cA = "Operation (op_type (st ! opA)) (position (st ! opA)) (text_op (st ! opA))
               (length_op (st ! opA)) (base_version (st ! opA)) None"
  let ?cB = "Operation (op_type (st ! opB)) (position (st ! opB)) (text_op (st ! opB))
               (length_op (st ! opB)) (base_version (st ! opB)) None"
  let ?st2 = "st @ [?cA, ?cB]"
  have kinds: "op_type ?cA = ''delete''" "op_type ?cB = ''insert''"
    using assms by (simp_all add: Operation_def)
  have nths: "?st2 ! length st = ?cA" "?st2 ! Suc (length st) = ?cB"
    by (simp_all add: nth_append)
  have inner: "transform_store ?st2 (Suc (length st)) (length st)
                 = (?st2 @ [fst (transform ?cB ?cA), snd (transform ?cB ?cA)],
                    length ?st2, Suc (length ?st2))"
    using transform_store_direct [of "Suc (length st)" ?st2 "length st"] kinds nths
    by simp
  have outer: "transform_store st opA opB
                 = (let (st3, Bprime, Aprime) = transform_store ?st2 (Suc (length st)) (length st)
                    in (st3, Aprime, Bprime))"
    using assms
    by (subst transform_store.simps)
       (simp add: new_Operation_def Let_def nth_append Operation_def)
  have pure: "transform (st ! opA) (st ! opB)
                = (snd (transform ?cB ?cA), fst (transform ?cB ?cA))"
    using assms(3,4) by (rule transform_delete_insert)
  show ?thesis
    unfolding outer inner pure by simp
qed

text \<open>
  Between two inserts whose positions lie within the text, the transformed pair
  does commute.
\<close>

lemma insert_text:
  "op_type op = ''insert'' \<Longrightarrow> 0 \<le> position op \<Longrightarrow> position op \<le> int (length (text_doc doc)) \<Longrightarrow>
   text_doc (fst (apply_operation doc op))
     = take (nat (position op)) (text_doc doc) @ text_op op @ drop (nat (position op)) (text_doc doc)"
  by (simp add: apply_operation_def slice_within)

lemma splice_splice_before:
  assumes "i \<le> j" and "j \<le> length d"
  shows "take i (take j d @ b @ drop j d) @ a @ drop i (take j d @ b @ drop j d)
     = take (j + length a) (take i d @ a @ drop i d) @ b @ drop (j + length a) (take i d @ a @ drop i d)"
proof -
  define x where "x = take i d"
  define y where "y = take (j - i) (drop i d)"
  define z where "z = drop j d"
  have d: "d = x @ y @ z"
    using assms unfolding x_def y_def z_def
    by (metis add_diff_cancel_left' append_take_drop_id drop_drop le_Suc_ex add.commute)
  have lx: "length x = i" and ly: "length y = j - i"
    using assms by (simp_all add: x_def y_def)
  have j: "j = length x + length y" using assms lx ly by simp
  show ?thesis
    unfolding d j by (simp add: lx [symmetric])
qed


lemma transform_insert_insert:
  assumes "op_type A = ''insert''" and "op_type B = ''insert''"
  shows "transform A B =
     (if position A \<le> position B
      then (A\<lparr>op_id := None\<rparr>, B\<lparr>position := position B + int (length (text_op A)), op_id := None\<rparr>)
      else (A\<lparr>position := position A + int (length (text_op B)), op_id := None\<rparr>, B\<lparr>op_id := None\<rparr>))"
  using assms by (subst transform.simps) (auto simp: Let_def Operation_def)

lemma transform_insert_insert_commutes:
  assumes "op_type A = ''insert''" and "op_type B = ''insert''"
      and "0 \<le> position A" and "position A \<le> int (length (text_doc doc))"
      and "0 \<le> position B" and "position B \<le> int (length (text_doc doc))"
  shows "apply_then doc B (fst (transform A B)) = apply_then doc A (snd (transform A B))"
proof (cases "position A \<le> position B")
  case True
  let ?i = "nat (position A)" and ?j = "nat (position B)"
  have ij: "?i \<le> ?j" "?j \<le> length (text_doc doc)" using True assms by simp_all
  have "nat (position B + int (length (text_op A))) = ?j + length (text_op A)"
    using assms by (simp add: nat_add_distrib)
  then show ?thesis
    using True assms splice_splice_before [OF ij, of "text_op B" "text_op A"]
    by (simp add: apply_then_def transform_insert_insert insert_text)
next
  case False
  let ?i = "nat (position B)" and ?j = "nat (position A)"
  have ij: "?i \<le> ?j" "?j \<le> length (text_doc doc)" using False assms by simp_all
  have "nat (position A + int (length (text_op B))) = ?j + length (text_op B)"
    using assms by (simp add: nat_add_distrib)
  then show ?thesis
    using False assms splice_splice_before [OF ij, of "text_op A" "text_op B"]
    by (simp add: apply_then_def transform_insert_insert insert_text)
qed


text \<open>
  Every operation that \<open>transform\<close> returns has the id \<open>None\<close>, so an operation
  that went through at least one step of the rebase loop has lost its id.
\<close>

lemma transform_op_id: "op_id (fst (transform A B)) = None \<and> op_id (snd (transform A B)) = None"
proof (cases "op_type A = ''delete'' \<and> op_type B = ''insert''")
  case True
  have "op_id (fst (transform
        (Operation (op_type B) (position B) (text_op B) (length_op B) (base_version B) None)
        (Operation (op_type A) (position A) (text_op A) (length_op A) (base_version A) None)))
          = None
      \<and> op_id (snd (transform
        (Operation (op_type B) (position B) (text_op B) (length_op B) (base_version B) None)
        (Operation (op_type A) (position A) (text_op A) (length_op A) (base_version A) None)))
          = None"
    using True by (subst (1 2) transform.simps) (simp add: Let_def Operation_def)
  with True show ?thesis
    by (subst (1 2) transform.simps) (auto simp add: Let_def Operation_def split: prod.split)
next
  case False
  then show ?thesis
    by (subst (1 2) transform.simps) (auto simp add: Let_def Operation_def)
qed

lemma rebase_loop_op_id: "ops \<noteq> [] \<Longrightarrow> op_id (rebase_loop op ops) = None"
proof (induction ops arbitrary: op)
  case Nil
  then show ?case by simp
next
  case (Cons old_op ops)
  then show ?case
    by (cases ops) (simp_all add: transform_op_id)
qed

section \<open>Unknown operation kinds\<close>

text \<open>
  C10. For every operation whose kind is neither \<open>insert\<close> nor \<open>delete\<close>,
  \<open>apply_operation\<close> raises \<open>ValueError\<close> and leaves the document as it was: the text
  and the version counter are unchanged.
\<close>

theorem apply_operation_unknown_kind:
  assumes "op_type op \<noteq> ''insert''" and "op_type op \<noteq> ''delete''"
  shows "apply_operation doc op = (doc, Some (ValueError ''Unknown operation type.''))
         \<and> text_doc (fst (apply_operation doc op)) = text_doc doc
         \<and> version (fst (apply_operation doc op)) = version doc"
  using assms by (simp add: apply_operation_def)

theorem apply_operation_unknown_kind_witness:
  "op_type (Operation ''replace'' 0 ''x'' 0 0 None) \<noteq> ''insert''
   \<and> op_type (Operation ''replace'' 0 ''x'' 0 0 None) \<noteq> ''delete''
   \<and> apply_operation (DocumentModel_init ''abc'') (Operation ''replace'' 0 ''x'' 0 0 None)
       = (DocumentModel_init ''abc'', Some (ValueError ''Unknown operation type.''))"
  using apply_operation_unknown_kind
          [of "Operation ''replace'' 0 ''x'' 0 0 None" "DocumentModel_init ''abc''"]
  by (simp add: Operation_def)

section \<open>Scenarios\<close>

lemmas scenario_defs =
  handle_incoming_operation_def OTServer_init_def DocumentModel_init_def Operation_def
  apply_operation_def slice_from_def slice_to_def slice_index_def transform.simps

text \<open>
  C9. Independent inserts. From the initial server (text \<open>Hello OT!\<close>, version 0),
  X = insert \<open>a\<close> at 5 with base version 0 is applied unchanged and gives
  \<open>Helloa OT!\<close> at version 1. Then Y = insert \<open>b\<close> at 0 with base version 0 is rebased
  against X, keeps position 0, and gives \<open>bHelloa OT!\<close> at version 2.
\<close>

theorem independent_inserts_scenario:
  "handle_incoming_operation OTServer_init (Operation ''insert'' 5 ''a'' 0 0 idX)
     = (\<lparr>document = \<lparr>text_doc = ''Helloa OT!'', version = 1\<rparr>,
         history = [Operation ''insert'' 5 ''a'' 0 0 idX]\<rparr>,
        Inr \<lparr>opId = idX, payload_op_type = ''insert'', payload_position = 5,
             payload_text = ''a'', payload_length = 0, new_version = 1\<rparr>)
   \<and> handle_incoming_operation
        \<lparr>document = \<lparr>text_doc = ''Helloa OT!'', version = 1\<rparr>,
         history = [Operation ''insert'' 5 ''a'' 0 0 idX]\<rparr>
        (Operation ''insert'' 0 ''b'' 0 0 idY)
     = (\<lparr>document = \<lparr>text_doc = ''bHelloa OT!'', version = 2\<rparr>,
         history = [Operation ''insert'' 5 ''a'' 0 0 idX,
                    Operation ''insert'' 0 ''b'' 0 0 None]\<rparr>,
        Inr \<lparr>opId = None, payload_op_type = ''insert'', payload_position = 0,
             payload_text = ''b'', payload_length = 0, new_version = 2\<rparr>)"
  by (simp add: scenario_defs)

text \<open>
  C3. Overlapping deletes, evaluated. On \<open>abcdef\<close> at version 0, X = delete 3 at 1
  gives \<open>aef\<close>. Y = delete 2 at 2 with base version 0 is rebased against X to
  delete 4 at 1, and the text becomes \<open>a\<close>: the characters \<open>e\<close> and \<open>f\<close>, which
  neither X nor Y deleted, are gone. The union of the two ranges would leave
  \<open>aef\<close>.
\<close>

theorem overlapping_deletes_scenario:
  "handle_incoming_operation \<lparr>document = DocumentModel_init ''abcdef'', history = []\<rparr>
        (Operation ''delete'' 1 [] 3 0 idX)
     = (\<lparr>document = \<lparr>text_doc = ''aef'', version = 1\<rparr>,
         history = [Operation ''delete'' 1 [] 3 0 idX]\<rparr>,
        Inr \<lparr>opId = idX, payload_op_type = ''delete'', payload_position = 1,
             payload_text = [], payload_length = 3, new_version = 1\<rparr>)
   \<and> handle_incoming_operation
        \<lparr>document = \<lparr>text_doc = ''aef'', version = 1\<rparr>,
         history = [Operation ''delete'' 1 [] 3 0 idX]\<rparr>
        (Operation ''delete'' 2 [] 2 0 idY)
     = (\<lparr>document = \<lparr>text_doc = ''a'', version = 2\<rparr>,
         history = [Operation ''delete'' 1 [] 3 0 idX, Operation ''delete'' 1 [] 4 0 None]\<rparr>,
        Inr \<lparr>opId = None, payload_op_type = ''delete'', payload_position = 1,
             payload_text = [], payload_length = 4, new_version = 2\<rparr>)"
  by (simp add: scenario_defs)

text \<open>
  C5. The operation id after a rebase, evaluated. With X in the history, the
  operation Y with base version 0 and id \<open>y1\<close> goes through one \<open>transform\<close> step;
  the payload that is emitted carries the new version 2 and the id \<open>None\<close>, not
  \<open>y1\<close>.
\<close>

theorem rebased_operation_loses_op_id:
  "snd (handle_incoming_operation
          \<lparr>document = \<lparr>text_doc = ''Helloa OT!'', version = 1\<rparr>,
           history = [Operation ''insert'' 5 ''a'' 0 0 (Some ''x1'')]\<rparr>
          (Operation ''insert'' 0 ''b'' 0 0 (Some ''y1'')))
     = Inr \<lparr>opId = None, payload_op_type = ''insert'', payload_position = 0,
             payload_text = ''b'', payload_length = 0, new_version = 2\<rparr>"
  by (simp add: scenario_defs)

text \<open>
  C1. The transformation law, evaluated at two pairs. For A = delete 1 at 0 and
  B = delete 1 at 2 on \<open>abcd\<close>, B then A' gives \<open>bd\<close> and A then B' gives \<open>bc\<close>.
  For A = insert \<open>X\<close> at 2 and B = delete 4 at 1 on \<open>abcdef\<close> (the insert falls
  strictly inside the deleted range), B then A' gives \<open>aXf\<close> and A then B' gives
  \<open>aef\<close>.
\<close>

theorem transform_not_commutative:
  "apply_then (DocumentModel_init ''abcd'') (Operation ''delete'' 2 [] 1 0 None)
     (fst (transform (Operation ''delete'' 0 [] 1 0 None) (Operation ''delete'' 2 [] 1 0 None)))
     = ''bd''
   \<and> apply_then (DocumentModel_init ''abcd'') (Operation ''delete'' 0 [] 1 0 None)
     (snd (transform (Operation ''delete'' 0 [] 1 0 None) (Operation ''delete'' 2 [] 1 0 None)))
     = ''bc''
   \<and> apply_then (DocumentModel_init ''abcdef'') (Operation ''delete'' 1 [] 4 0 None)
     (fst (transform (Operation ''insert'' 2 ''X'' 0 0 None) (Operation ''delete'' 1 [] 4 0 None)))
     = ''aXf''
   \<and> apply_then (DocumentModel_init ''abcdef'') (Operation ''insert'' 2 ''X'' 0 0 None)
     (snd (transform (Operation ''insert'' 2 ''X'' 0 0 None) (Operation ''delete'' 1 [] 4 0 None)))
     = ''aef''"
  by (simp add: scenario_defs apply_then_def)

section \<open>The server's version counter\<close>

text \<open>
  C7. After any sequence of \<open>handle_incoming_operation\<close> calls from the initial
  server, the version of the document equals the length of the history and the
  number of operations that were applied. A call that emits a payload raises the
  version by exactly 1 (and reports it as the new version); a call that raises
  leaves the server as it was; so the version never decreases.
\<close>

theorem server_version_invariant:
  "version (document (client_ops OTServer_init ops))
     = int (length (history (client_ops OTServer_init ops)))
   \<and> version (document (client_ops OTServer_init ops)) = int (applied OTServer_init ops)
   \<and> (\<forall>p. snd (handle_incoming_operation s op) = Inr p \<longrightarrow>
          version (document (fst (handle_incoming_operation s op))) = version (document s) + 1
          \<and> new_version p = version (document s) + 1)
   \<and> (\<forall>e. snd (handle_incoming_operation s op) = Inl e \<longrightarrow>
          fst (handle_incoming_operation s op) = s)
   \<and> version (document s) \<le> version (document (client_ops s ops))"
proof (intro conjI allI impI)
  show "version (document (client_ops OTServer_init ops))
     = int (length (history (client_ops OTServer_init ops)))"
    by (rule client_ops_version_history) (simp add: OTServer_init_def DocumentModel_init_def)
  show "version (document (client_ops OTServer_init ops)) = int (applied OTServer_init ops)"
    by (simp add: client_ops_version_applied OTServer_init_def DocumentModel_init_def)
  show "version (document s) \<le> version (document (client_ops s ops))"
    by (simp add: client_ops_version_applied)
next
  fix p assume "snd (handle_incoming_operation s op) = Inr p"
  from handle_incoming_operation_emitted [OF this]
  show "version (document (fst (handle_incoming_operation s op))) = version (document s) + 1"
    and "new_version p = version (document s) + 1" by simp_all
next
  fix e assume "snd (handle_incoming_operation s op) = Inl e"
  then show "fst (handle_incoming_operation s op) = s"
    by (rule handle_incoming_operation_raised)
qed

theorem server_version_invariant_witness:
  "snd (handle_incoming_operation OTServer_init (Operation ''insert'' 5 ''a'' 0 0 None))
     = Inr \<lparr>opId = None, payload_op_type = ''insert'', payload_position = 5,
             payload_text = ''a'', payload_length = 0, new_version = 1\<rparr>
   \<and> version (document (fst (handle_incoming_operation OTServer_init
          (Operation ''insert'' 5 ''a'' 0 0 None)))) = version (document OTServer_init) + 1
   \<and> snd (handle_incoming_operation OTServer_init (Operation ''replace'' 5 ''a'' 0 0 None))
     = Inl (ValueError ''Unknown operation type.'')
   \<and> fst (handle_incoming_operation OTServer_init (Operation ''replace'' 5 ''a'' 0 0 None))
     = OTServer_init
   \<and> version (document (client_ops OTServer_init
          [Operation ''insert'' 5 ''a'' 0 0 None, Operation ''replace'' 5 ''a'' 0 0 None,
           Operation ''delete'' 0 [] 2 1 None])) = 2"
proof -
  have a: "snd (handle_incoming_operation OTServer_init (Operation ''insert'' 5 ''a'' 0 0 None))
     = Inr \<lparr>opId = None, payload_op_type = ''insert'', payload_position = 5,
             payload_text = ''a'', payload_length = 0, new_version = 1\<rparr>"
    by (simp add: scenario_defs)
  have b: "snd (handle_incoming_operation OTServer_init (Operation ''replace'' 5 ''a'' 0 0 None))
     = Inl (ValueError ''Unknown operation type.'')"
    by (simp add: scenario_defs)
  have c: "applied OTServer_init
          [Operation ''insert'' 5 ''a'' 0 0 None, Operation ''replace'' 5 ''a'' 0 0 None,
           Operation ''delete'' 0 [] 2 1 None] = 2"
    by (simp add: scenario_defs)
  note t1 = server_version_invariant [of
    "[Operation ''insert'' 5 ''a'' 0 0 None, Operation ''replace'' 5 ''a'' 0 0 None,
           Operation ''delete'' 0 [] 2 1 None]" OTServer_init "Operation ''insert'' 5 ''a'' 0 0 None"]
  note t2 = server_version_invariant [of "[]" OTServer_init "Operation ''replace'' 5 ''a'' 0 0 None"]
  show ?thesis using a b c t1 t2 by simp
qed

section \<open>Bounds of an operation\<close>

text \<open>
  C4, as stated, fails. \<open>apply_operation\<close> has no bounds check: an insert at
  position 10 into \<open>abc\<close> is applied (the text is appended), and so is a delete
  of 10 characters at position 1 (the rest of the text is removed).
\<close>

theorem out_of_bounds_operation_applied:
  "int (length (text_doc (DocumentModel_init ''abc''))) < position (Operation ''insert'' 10 ''x'' 0 0 None)
   \<and> apply_operation (DocumentModel_init ''abc'') (Operation ''insert'' 10 ''x'' 0 0 None)
       = (\<lparr>text_doc = ''abcx'', version = 1\<rparr>, None)
   \<and> int (length (text_doc (DocumentModel_init ''abc'')))
       < position (Operation ''delete'' 1 [] 10 0 None) + length_op (Operation ''delete'' 1 [] 10 0 None)
   \<and> apply_operation (DocumentModel_init ''abc'') (Operation ''delete'' 1 [] 10 0 None)
       = (\<lparr>text_doc = ''a'', version = 1\<rparr>, None)"
  by (simp add: scenario_defs)

text \<open>
  C4, amended. \<open>apply_operation\<close> never raises for an insert or a delete, whatever
  the position. For an insert with \<open>0 \<le> position \<le> len(text)\<close> the text is spliced
  in at the position; for a delete with \<open>0 \<le> position\<close>, \<open>0 \<le> length\<close> and
  \<open>position + length \<le> len(text)\<close> exactly the characters of the range are
  removed; in both cases the version is incremented.
\<close>

theorem apply_operation_in_bounds:
  "(op_type op = ''insert'' \<or> op_type op = ''delete'' \<longrightarrow> snd (apply_operation doc op) = None)
   \<and> (op_type op = ''insert'' \<and> 0 \<le> position op
        \<and> position op \<le> int (length (text_doc doc)) \<longrightarrow>
      apply_operation doc op
        = (\<lparr>text_doc = take (nat (position op)) (text_doc doc) @ text_op op
                         @ drop (nat (position op)) (text_doc doc),
            version = version doc + 1\<rparr>, None))
   \<and> (op_type op = ''delete'' \<and> 0 \<le> position op \<and> 0 \<le> length_op op
        \<and> position op + length_op op \<le> int (length (text_doc doc)) \<longrightarrow>
      apply_operation doc op
        = (\<lparr>text_doc = take (nat (position op)) (text_doc doc)
                         @ drop (nat (position op) + nat (length_op op)) (text_doc doc),
            version = version doc + 1\<rparr>, None))"
proof (intro conjI impI)
  assume "op_type op = ''insert'' \<or> op_type op = ''delete''"
  then show "snd (apply_operation doc op) = None"
    by (auto simp: apply_operation_def)
next
  assume "op_type op = ''insert'' \<and> 0 \<le> position op
        \<and> position op \<le> int (length (text_doc doc))"
  then show "apply_operation doc op
        = (\<lparr>text_doc = take (nat (position op)) (text_doc doc) @ text_op op
                         @ drop (nat (position op)) (text_doc doc),
            version = version doc + 1\<rparr>, None)"
    by (simp add: apply_operation_def slice_within)
next
  assume a: "op_type op = ''delete'' \<and> 0 \<le> position op \<and> 0 \<le> length_op op
        \<and> position op + length_op op \<le> int (length (text_doc doc))"
  then have "slice_from (text_doc doc) (position op + length_op op)
               = drop (nat (position op) + nat (length_op op)) (text_doc doc)"
    using slice_within [of "position op + length_op op" "text_doc doc"]
    by (simp add: nat_add_distrib)
  with a show "apply_operation doc op
        = (\<lparr>text_doc = take (nat (position op)) (text_doc doc)
                         @ drop (nat (position op) + nat (length_op op)) (text_doc doc),
            version = version doc + 1\<rparr>, None)"
    by (simp add: apply_operation_def slice_within)
qed

theorem apply_operation_in_bounds_witness:
  "apply_operation (DocumentModel_init ''abcdef'') (Operation ''insert'' 2 ''XY'' 0 0 None)
     = (\<lparr>text_doc = ''abXYcdef'', version = 1\<rparr>, None)
   \<and> apply_operation (DocumentModel_init ''abcdef'') (Operation ''delete'' 1 [] 3 0 None)
     = (\<lparr>text_doc = ''aef'', version = 1\<rparr>, None)
   \<and> snd (apply_operation (DocumentModel_init ''abcdef'') (Operation ''delete'' 4 [] 9 0 None))
     = None"
  using apply_operation_in_bounds
          [of "Operation ''insert'' 2 ''XY'' 0 0 None" "DocumentModel_init ''abcdef''"]
        apply_operation_in_bounds
          [of "Operation ''delete'' 1 [] 3 0 None" "DocumentModel_init ''abcdef''"]
        apply_operation_in_bounds
          [of "Operation ''delete'' 4 [] 9 0 None" "DocumentModel_init ''abcdef''"]
  by (simp add: Operation_def DocumentModel_init_def)

section \<open>Base versions outside the history\<close>

text \<open>
  C2, as stated, fails. On the initial server (version 0) an insert with base
  version 5 is not rejected: it is applied, the text and the version change and
  the operation is appended to the history.
\<close>

theorem future_base_version_not_rejected:
  "version (document OTServer_init) < base_version (Operation ''insert'' 0 ''x'' 0 5 (Some ''c1''))
   \<and> handle_incoming_operation OTServer_init (Operation ''insert'' 0 ''x'' 0 5 (Some ''c1''))
     = (\<lparr>document = \<lparr>text_doc = ''xHello OT!'', version = 1\<rparr>,
         history = [Operation ''insert'' 0 ''x'' 0 5 (Some ''c1'')]\<rparr>,
        Inr \<lparr>opId = Some ''c1'', payload_op_type = ''insert'', payload_position = 0,
             payload_text = ''x'', payload_length = 0, new_version = 1\<rparr>)"
  by (simp add: scenario_defs)

text \<open>
  C2, amended. When the base version of an operation is greater than the version
  of the server (which is the length of the history), the slice of unseen
  operations is empty: an insert or a delete is applied untransformed, appended to
  the history and emitted with its own id and the version incremented by 1. Only
  an operation of unknown kind fails, with \<open>ValueError\<close>, and then the server is
  unchanged.
\<close>

theorem future_base_version_applied_untransformed:
  assumes "version (document s) = int (length (history s))"
      and "version (document s) < base_version op"
  shows "(op_type op = ''insert'' \<or> op_type op = ''delete'' \<longrightarrow>
            handle_incoming_operation s op
              = (\<lparr>document = fst (apply_operation (document s) op),
                  history = history s @ [op]\<rparr>,
                 Inr \<lparr>opId = op_id op, payload_op_type = op_type op,
                      payload_position = position op, payload_text = text_op op,
                      payload_length = length_op op,
                      new_version = version (document s) + 1\<rparr>))
       \<and> (op_type op \<noteq> ''insert'' \<and> op_type op \<noteq> ''delete'' \<longrightarrow>
            handle_incoming_operation s op = (s, Inl (ValueError ''Unknown operation type.'')))"
proof -
  have "slice_from (history s) (base_version op) = []"
    using assms by (intro slice_from_beyond) simp
  then show ?thesis
    by (auto simp: handle_incoming_operation_def apply_operation_def)
qed

theorem future_base_version_applied_untransformed_witness:
  "version (document \<lparr>document = \<lparr>text_doc = ''Helloa OT!'', version = 1\<rparr>,
                       history = [Operation ''insert'' 5 ''a'' 0 0 (Some ''x1'')]\<rparr>)
     = int (length (history \<lparr>document = \<lparr>text_doc = ''Helloa OT!'', version = 1\<rparr>,
                             history = [Operation ''insert'' 5 ''a'' 0 0 (Some ''x1'')]\<rparr>))
   \<and> version (document \<lparr>document = \<lparr>text_doc = ''Helloa OT!'', version = 1\<rparr>,
                         history = [Operation ''insert'' 5 ''a'' 0 0 (Some ''x1'')]\<rparr>)
     < base_version (Operation ''insert'' 7 ''b'' 0 5 (Some ''c2''))
   \<and> handle_incoming_operation
        \<lparr>document = \<lparr>text_doc = ''Helloa OT!'', version = 1\<rparr>,
         history = [Operation ''insert'' 5 ''a'' 0 0 (Some ''x1'')]\<rparr>
        (Operation ''insert'' 7 ''b'' 0 5 (Some ''c2''))
     = (\<lparr>document = \<lparr>text_doc = ''Helloa bOT!'', version = 2\<rparr>,
         history = [Operation ''insert'' 5 ''a'' 0 0 (Some ''x1''),
                    Operation ''insert'' 7 ''b'' 0 5 (Some ''c2'')]\<rparr>,
        Inr \<lparr>opId = Some ''c2'', payload_op_type = ''insert'', payload_position = 7,
             payload_text = ''b'', payload_length = 0, new_version = 2\<rparr>)
   \<and> handle_incoming_operation
        \<lparr>document = \<lparr>text_doc = ''Helloa OT!'', version = 1\<rparr>,
         history = [Operation ''insert'' 5 ''a'' 0 0 (Some ''x1'')]\<rparr>
        (Operation ''replace'' 7 ''b'' 0 5 (Some ''c3''))
     = (\<lparr>document = \<lparr>text_doc = ''Helloa OT!'', version = 1\<rparr>,
         history = [Operation ''insert'' 5 ''a'' 0 0 (Some ''x1'')]\<rparr>,
        Inl (ValueError ''Unknown operation type.''))"
  using future_base_version_applied_untransformed
          [of "\<lparr>document = \<lparr>text_doc = ''Helloa OT!'', version = 1\<rparr>,
                history = [Operation ''insert'' 5 ''a'' 0 0 (Some ''x1'')]\<rparr>"
              "Operation ''insert'' 7 ''b'' 0 5 (Some ''c2'')"]
        future_base_version_applied_untransformed
          [of "\<lparr>document = \<lparr>text_doc = ''Helloa OT!'', version = 1\<rparr>,
                history = [Operation ''insert'' 5 ''a'' 0 0 (Some ''x1'')]\<rparr>"
              "Operation ''replace'' 7 ''b'' 0 5 (Some ''c3'')"]
  by (simp add: Operation_def apply_operation_def slice_to_def slice_from_def slice_index_def)

text \<open>
  C6, as stated, fails. With one operation in the history, an insert with base
  version \<open>-1\<close> is not rejected: it is rebased against the last operation of the
  history and applied; text, version and history change.
\<close>

theorem negative_base_version_not_rejected:
  "base_version (Operation ''insert'' 0 ''b'' 0 (- 1) (Some ''c1'')) < 0
   \<and> handle_incoming_operation
        \<lparr>document = \<lparr>text_doc = ''Helloa OT!'', version = 1\<rparr>,
         history = [Operation ''insert'' 5 ''a'' 0 0 (Some ''x1'')]\<rparr>
        (Operation ''insert'' 0 ''b'' 0 (- 1) (Some ''c1''))
     = (\<lparr>document = \<lparr>text_doc = ''bHelloa OT!'', version = 2\<rparr>,
         history = [Operation ''insert'' 5 ''a'' 0 0 (Some ''x1''),
                    Operation ''insert'' 0 ''b'' 0 (- 1) None]\<rparr>,
        Inr \<lparr>opId = None, payload_op_type = ''insert'', payload_position = 0,
             payload_text = ''b'', payload_length = 0, new_version = 2\<rparr>)"
  by (simp add: scenario_defs)

text \<open>
  C6, amended. A negative base version \<open>-k\<close> selects the last \<open>k\<close> operations of
  the history (all of them when the history is shorter). An insert or a delete is
  rebased against these, applied, appended to the history and emitted with the
  version incremented by 1. Only an operation of unknown kind fails, with
  \<open>ValueError\<close>, and then the server is unchanged.
\<close>

theorem negative_base_version_rebased:
  assumes "base_version op < 0"
  shows "(op_type op = ''insert'' \<or> op_type op = ''delete'' \<longrightarrow>
            (let op' = rebase_loop op
                         (drop (length (history s) - nat (- base_version op)) (history s))
             in handle_incoming_operation s op
                  = (\<lparr>document = fst (apply_operation (document s) op'),
                      history = history s @ [op']\<rparr>,
                     Inr \<lparr>opId = op_id op', payload_op_type = op_type op',
                          payload_position = position op', payload_text = text_op op',
                          payload_length = length_op op',
                          new_version = version (document s) + 1\<rparr>)))
       \<and> (op_type op \<noteq> ''insert'' \<and> op_type op \<noteq> ''delete'' \<longrightarrow>
            handle_incoming_operation s op = (s, Inl (ValueError ''Unknown operation type.'')))"
proof -
  have "slice_from (history s) (base_version op)
          = drop (length (history s) - nat (- base_version op)) (history s)"
    using assms by (rule slice_from_negative)
  then show ?thesis
    by (auto simp: handle_incoming_operation_def apply_operation_def rebase_loop_op_type
          Let_def)
qed

theorem negative_base_version_rebased_witness:
  "base_version (Operation ''insert'' 7 ''b'' 0 (- 1) (Some ''c1'')) < 0
   \<and> handle_incoming_operation
        \<lparr>document = \<lparr>text_doc = ''Helloa OT'', version = 2\<rparr>,
         history = [Operation ''insert'' 5 ''a'' 0 0 (Some ''x1''),
                    Operation ''delete'' 9 [] 1 1 (Some ''x2'')]\<rparr>
        (Operation ''insert'' 7 ''b'' 0 (- 1) (Some ''c1''))
     = (\<lparr>document = \<lparr>text_doc = ''Helloa bOT'', version = 3\<rparr>,
         history = [Operation ''insert'' 5 ''a'' 0 0 (Some ''x1''),
                    Operation ''delete'' 9 [] 1 1 (Some ''x2''),
                    Operation ''insert'' 7 ''b'' 0 (- 1) None]\<rparr>,
        Inr \<lparr>opId = None, payload_op_type = ''insert'', payload_position = 7,
             payload_text = ''b'', payload_length = 0, new_version = 3\<rparr>)
   \<and> handle_incoming_operation OTServer_init (Operation ''replace'' 0 [] 2 (- 3) (Some ''c3''))
     = (OTServer_init, Inl (ValueError ''Unknown operation type.''))"
  using negative_base_version_rebased
          [of "Operation ''insert'' 7 ''b'' 0 (- 1) (Some ''c1'')"
              "\<lparr>document = \<lparr>text_doc = ''Helloa OT'', version = 2\<rparr>,
                history = [Operation ''insert'' 5 ''a'' 0 0 (Some ''x1''),
                           Operation ''delete'' 9 [] 1 1 (Some ''x2'')]\<rparr>"]
        negative_base_version_rebased
          [of "Operation ''replace'' 0 [] 2 (- 3) (Some ''c3'')" OTServer_init]
  by (simp add: Operation_def OTServer_init_def DocumentModel_init_def apply_operation_def
        slice_to_def slice_from_def slice_index_def transform.simps Let_def)

section \<open>transform leaves its arguments alone\<close>

text \<open>
  C8. \<open>transform\<close> does not mutate its inputs. Run on a store with the arguments
  at two allocated addresses, it leaves every object that existed before the call
  as it was, in particular the two arguments with all their fields; the two
  addresses it returns are new, distinct, and hold the pair that the function
  \<open>transform\<close> computes from the values of the arguments.
\<close>

theorem transform_keeps_its_inputs:
  assumes "opA < length st" and "opB < length st"
  shows "(case transform_store st opA opB of (st', A', B') \<Rightarrow>
            take (length st) st' = st
          \<and> st' ! opA = st ! opA \<and> st' ! opB = st ! opB
          \<and> length st \<le> A' \<and> A' < length st' \<and> length st \<le> B' \<and> B' < length st'
          \<and> A' \<noteq> B'
          \<and> (st' ! A', st' ! B') = transform (st ! opA) (st ! opB))"
proof (cases "op_type (st ! opA) = ''delete'' \<and> op_type (st ! opB) = ''insert''")
  case True
  then show ?thesis
    using assms by (simp add: transform_store_swapped nth_append)
next
  case False
  then show ?thesis
    using assms by (simp add: transform_store_direct nth_append)
qed

theorem transform_keeps_its_inputs_witness:
  "(0::nat) < length [Operation ''delete'' 1 [] 4 0 (Some ''a''), Operation ''insert'' 2 ''X'' 0 0 (Some ''b'')]
   \<and> (1::nat) < length [Operation ''delete'' 1 [] 4 0 (Some ''a''), Operation ''insert'' 2 ''X'' 0 0 (Some ''b'')]
   \<and> transform_store
        [Operation ''delete'' 1 [] 4 0 (Some ''a''), Operation ''insert'' 2 ''X'' 0 0 (Some ''b'')] 0 1
      = ([Operation ''delete'' 1 [] 4 0 (Some ''a''), Operation ''insert'' 2 ''X'' 0 0 (Some ''b''),
          Operation ''delete'' 1 [] 4 0 None, Operation ''insert'' 2 ''X'' 0 0 None,
          Operation ''insert'' 1 ''X'' 0 0 None, Operation ''delete'' 1 [] 4 0 None], 5, 4)
   \<and> transform (Operation ''delete'' 1 [] 4 0 (Some ''a'')) (Operation ''insert'' 2 ''X'' 0 0 (Some ''b''))
      = (Operation ''delete'' 1 [] 4 0 None, Operation ''insert'' 1 ''X'' 0 0 None)"
proof -
  have run: "transform_store
        [Operation ''delete'' 1 [] 4 0 (Some ''a''), Operation ''insert'' 2 ''X'' 0 0 (Some ''b'')] 0 1
      = ([Operation ''delete'' 1 [] 4 0 (Some ''a''), Operation ''insert'' 2 ''X'' 0 0 (Some ''b''),
          Operation ''delete'' 1 [] 4 0 None, Operation ''insert'' 2 ''X'' 0 0 None,
          Operation ''insert'' 1 ''X'' 0 0 None, Operation ''delete'' 1 [] 4 0 None], 5, 4)"
    by (simp add: transform_store.simps new_Operation_def Operation_def Let_def)
  show ?thesis
    using transform_keeps_its_inputs
            [of 0 "[Operation ''delete'' 1 [] 4 0 (Some ''a''),
                    Operation ''insert'' 2 ''X'' 0 0 (Some ''b'')]" 1]
    unfolding run by (simp add: Operation_def)
qed

end
